theory Spec2Isabelle
  imports Complex_Main
begin

section \<open>Python values, exceptions and effects\<close>

text \<open>
  The values that cross the boundary to the collaborators (landmarks, joint positions,
  sequences, feature vectors, labels, acknowledgements) are Python objects the pipeline
  never inspects, apart from \<^verbatim>\<open>len\<close>, \<^verbatim>\<open>[0]\<close> and \<^verbatim>\<open>bool\<close>.
  A float is a real number here: rounding is not part of the model.
\<close>

datatype pyval =
    PyNone
  | PyBool bool
  | PyInt int
  | PyFloat real
  | PyStr string
  | PyList "pyval list"

text \<open>Python's \<^verbatim>\<open>bool(v)\<close>.\<close>

fun truthy :: "pyval \<Rightarrow> bool" where
  "truthy PyNone = False"
| "truthy (PyBool b) = b"
| "truthy (PyInt i) = (i \<noteq> 0)"
| "truthy (PyFloat x) = (x \<noteq> 0)"
| "truthy (PyStr s) = (s \<noteq> [])"
| "truthy (PyList vs) = (vs \<noteq> [])"

datatype exn =
    AttributeError
  | TypeError
  | IndexError
  | KeyError
  | ValueError
  | OverflowError
  | ZeroDivisionError
  | Raised string  \<comment> \<open>an exception raised inside a collaborator\<close>

text \<open>Python's \<^verbatim>\<open>len(v)\<close> and \<^verbatim>\<open>v[0]\<close>.\<close>

fun py_len :: "pyval \<Rightarrow> exn + nat" where
  "py_len (PyList vs) = Inr (length vs)"
| "py_len (PyStr s) = Inr (length s)"
| "py_len _ = Inl TypeError"

fun py_getitem0 :: "pyval \<Rightarrow> exn + pyval" where
  "py_getitem0 (PyList []) = Inl IndexError"
| "py_getitem0 (PyList (v # vs)) = Inr v"
| "py_getitem0 (PyStr []) = Inl IndexError"
| "py_getitem0 (PyStr (ch # s)) = Inr (PyStr [ch])"
| "py_getitem0 _ = Inl TypeError"

text \<open>The decimal rendering of a non-negative integer, as an f-string gives it.\<close>

fun str_nat :: "nat \<Rightarrow> string" where
  "str_nat n =
     (if n < 10 then [char_of (48 + n)]
      else str_nat (n div 10) @ [char_of (48 + n mod 10)])"

declare str_nat.simps [simp del]

text \<open>
  One time step as \<^verbatim>\<open>update_frame_data_from_js_client_keypoints\<close> builds it: the
  dictionary \<^verbatim>\<open>frame_data\<close> once \<^verbatim>\<open>joint_positions\<close> has been stored in it.
\<close>

record frame =
  sequence_id :: pyval
  sequence_source :: string
  frame_number :: pyval
  image_dimensions :: pyval
  joint_positions :: pyval

text \<open>The payload of an outward \<^verbatim>\<open>frame_result\<close> event.\<close>

datatype event =
    ErrorEvent string  \<comment> \<open>\<^verbatim>\<open>{"error": ...}\<close>\<close>
  | ClassificationEvent
      (event_classification: pyval)
      (event_timestamp: string)
      (event_processing_time: real)
      (event_frame_rate_capacity: real)
      (event_actuation: pyval)

text \<open>
  What a call does to its surroundings, in order: the calls to the collaborators, with
  their arguments, and the events sent to the client.
\<close>

datatype effect =
    SerializePoseLandmarks pyval
  | Assemble string "frame list"
  | SerializeSequence pyval
  | Transform pyval pyval
  | Predict pyval
  | ActuatorSend string
  | ActuatorReceive
  | Emit string event

fun is_pipeline_effect :: "effect \<Rightarrow> bool" where
  "is_pipeline_effect (Assemble name fs) = True"
| "is_pipeline_effect (SerializeSequence s) = True"
| "is_pipeline_effect (Transform d cols) = True"
| "is_pipeline_effect (Predict d) = True"
| "is_pipeline_effect _ = False"

fun is_actuation :: "effect \<Rightarrow> bool" where
  "is_actuation (ActuatorSend cmd) = True"
| "is_actuation ActuatorReceive = True"
| "is_actuation _ = False"

fun is_emit :: "effect \<Rightarrow> bool" where
  "is_emit (Emit name ev) = True"
| "is_emit _ = False"

section \<open>collections.deque with a maximum length\<close>

record 'a deque =
  items :: "'a list"
  maxlen :: int

text \<open>\<^verbatim>\<open>deque(xs, maxlen=m)\<close>: a \<^verbatim>\<open>maxlen\<close> that does not fit the signed 64-bit size type
  of CPython is an OverflowError, a negative one a ValueError; of a longer iterable only
  the last \<^verbatim>\<open>m\<close> elements stay.\<close>

definition deque_init :: "'a list \<Rightarrow> int \<Rightarrow> exn + 'a deque" where
  "deque_init xs m =
     (if m < - (2 ^ 63) \<or> 2 ^ 63 \<le> m then Inl OverflowError
      else if m < 0 then Inl ValueError
      else Inr \<lparr>items = drop (length xs - nat m) xs, maxlen = m\<rparr>)"

text \<open>\<^verbatim>\<open>d.append(x)\<close>: the element is added on the right, and when the deque has grown
  beyond \<^verbatim>\<open>maxlen\<close> the leftmost element is discarded.\<close>

definition deque_append :: "'a deque \<Rightarrow> 'a \<Rightarrow> 'a deque" where
  "deque_append d x =
     (let xs = items d @ [x]
      in d\<lparr>items := (if maxlen d < int (length xs) then tl xs else xs)\<rparr>)"

section \<open>MLFlowClient\<close>

text \<open>
  The collaborators held by a client are objects of this repository that
  \<^verbatim>\<open>ml_flow_client.py\<close> only calls: each is the function its one used method computes,
  \<open>Inl\<close> for a raised exception, and \<open>None\<close> where the attribute holds \<^verbatim>\<open>None\<close>.
\<close>

record mlflow_client =
  frame_window :: int
  model :: pyval
  transformer :: "(pyval \<Rightarrow> pyval \<Rightarrow> exn + pyval \<times> pyval) option"
  mpc :: "(pyval \<Rightarrow> exn + pyval) option"
  frames :: "frame deque"
  current_classification :: "bool option"
  predict_fn :: "(pyval \<Rightarrow> exn + pyval) option"
  input_example :: "string \<rightharpoonup> pyval"
  input_columns :: pyval

text \<open>
  What one call of a handler finds around it: the module-level collaborators
  (\<^verbatim>\<open>BlazePoseSequence(...).generate_blaze_pose_frames_from_sequence()\<close> with
  \<^verbatim>\<open>include_geometry=False\<close>, and \<^verbatim>\<open>BlazePoseSequenceSerializer().serialize\<close>)
  and the readings of the clock, in the order they are taken.
\<close>

record env =
  blaze_pose_sequence :: "string \<Rightarrow> frame list \<Rightarrow> exn + pyval"
  sequence_serializer :: "pyval \<Rightarrow> exn + pyval"
  start_time :: real  \<comment> \<open>\<^verbatim>\<open>time.time()\<close> before the pipeline\<close>
  name_ns :: nat  \<comment> \<open>\<^verbatim>\<open>time.time_ns()\<close> for the sequence name\<close>
  end_time :: real  \<comment> \<open>\<^verbatim>\<open>time.time()\<close> after the pipeline\<close>
  stamp_ns :: nat  \<comment> \<open>\<^verbatim>\<open>time.time_ns()\<close> for the event\<close>

text \<open>\<^verbatim>\<open>MLFlowClient.__init__\<close>\<close>

definition MLFlowClient_init ::
  "int \<Rightarrow> (pyval \<Rightarrow> exn + pyval) option \<Rightarrow> pyval
   \<Rightarrow> (pyval \<Rightarrow> pyval \<Rightarrow> exn + pyval \<times> pyval) option
   \<Rightarrow> (pyval \<Rightarrow> exn + pyval) option \<Rightarrow> (string \<rightharpoonup> pyval) \<Rightarrow> exn + mlflow_client" where
  "MLFlowClient_init fw mediapipe_client_instance trained_model data_transformer pf ie =
     (case deque_init [] fw of
        Inl e \<Rightarrow> Inl e
      | Inr d \<Rightarrow>
          (case ie ''columns'' of
             None \<Rightarrow> Inl KeyError
           | Some cols \<Rightarrow>
               Inr \<lparr>frame_window = fw, model = trained_model, transformer = data_transformer,
                    mpc = mediapipe_client_instance, frames = d,
                    current_classification = None, predict_fn = pf, input_example = ie,
                    input_columns = cols\<rparr>))"

text \<open>
  \<^verbatim>\<open>update_frame_data_from_js_client_keypoints\<close>. The result is the outcome of the call
  (the returned deque, or the exception), the client afterwards, and the effects.
\<close>

definition web_frame :: "pyval \<Rightarrow> frame" where
  "web_frame jp =
     \<lparr>sequence_id = PyNone, sequence_source = ''web'', frame_number = PyNone,
      image_dimensions = PyNone, joint_positions = jp\<rparr>"

definition update_frame_data_from_js_client_keypoints ::
  "(string \<rightharpoonup> pyval) \<Rightarrow> mlflow_client
   \<Rightarrow> (exn + frame deque) \<times> mlflow_client \<times> effect list" where
  "update_frame_data_from_js_client_keypoints keypoint_results c =
     (case keypoint_results ''landmarks'' of
        None \<Rightarrow> (Inr (frames c), c, [])
      | Some lms \<Rightarrow>
          (case py_len lms of
             Inl e \<Rightarrow> (Inl e, c, [])
           | Inr n \<Rightarrow>
               if n = 0 then (Inr (frames c), c, [])
               else
                 (case mpc c of
                    None \<Rightarrow> (Inl AttributeError, c, [])
                  | Some serialize_pose_landmarks \<Rightarrow>
                      (case py_getitem0 lms of
                         Inl e \<Rightarrow> (Inl e, c, [])
                       | Inr lm \<Rightarrow>
                           (case serialize_pose_landmarks lm of
                              Inl e \<Rightarrow> (Inl e, c, [SerializePoseLandmarks lm])
                            | Inr jp \<Rightarrow>
                                (let c' = c\<lparr>frames := deque_append (frames c) (web_frame jp)\<rparr>
                                 in (Inr (frames c'), c', [SerializePoseLandmarks lm])))))))"

text \<open>
  \<^verbatim>\<open>run_keypoint_pipeline\<close>. No path of the source returns a value: the outcome of a
  call that returns is \<^verbatim>\<open>None\<close>.
\<close>

definition run_keypoint_pipeline ::
  "env \<Rightarrow> (string \<rightharpoonup> pyval) \<Rightarrow> mlflow_client \<Rightarrow> (exn + pyval) \<times> mlflow_client \<times> effect list" where
  "run_keypoint_pipeline en keypoints c =
     (case update_frame_data_from_js_client_keypoints keypoints c of
        (Inl e, c1, t1) \<Rightarrow> (Inl e, c1, t1)
      | (Inr current_frames, c1, t1) \<Rightarrow>
          if int (length (items current_frames)) = frame_window c1 then
            (let name = ''sequence-'' @ str_nat (name_ns en);
                 t2 = t1 @ [Assemble name (items current_frames)]
             in case blaze_pose_sequence en name (items current_frames) of
                  Inl e \<Rightarrow> (Inl e, c1, t2)
                | Inr sequence \<Rightarrow>
                    (let t3 = t2 @ [SerializeSequence sequence]
                     in case sequence_serializer en sequence of
                          Inl e \<Rightarrow> (Inl e, c1, t3)
                        | Inr sequence_data \<Rightarrow>
                            (case transformer c1 of
                               None \<Rightarrow> (Inl AttributeError, c1, t3)
                             | Some transform \<Rightarrow>
                                 (let t4 = t3 @ [Transform sequence_data (input_columns c1)]
                                  in case transform sequence_data (input_columns c1) of
                                       Inl e \<Rightarrow> (Inl e, c1, t4)
                                     | Inr (data, meta) \<Rightarrow>
                                         (case predict_fn c1 of
                                            None \<Rightarrow> (Inr PyNone, c1, t4)
                                          | Some predict \<Rightarrow>
                                              (case predict data of
                                                 Inl e \<Rightarrow> (Inl e, c1, t4 @ [Predict data])
                                               | Inr label \<Rightarrow>
                                                   (Inr PyNone,
                                                    c1\<lparr>current_classification := Some (truthy label)\<rparr>,
                                                    t4 @ [Predict data])))))))
          else (Inr PyNone, c1, t1))"

section \<open>The socket handler of app.py\<close>

text \<open>
  \<^verbatim>\<open>handle_keypoints\<close> uses two things of the object bound as \<^verbatim>\<open>pc.poser_client\<close>: its
  method \<^verbatim>\<open>run_keypoint_pipeline\<close> and its attribute \<^verbatim>\<open>current_classification\<close>
  (\<open>PyNone\<close> for \<^verbatim>\<open>None\<close>). The handler is written over any class that offers the two;
  the class is a parameter, as the dispatch on the bound object is in Python.
\<close>

record 'c client_class =
  run_keypoint_pipeline_of ::
    "env \<Rightarrow> (string \<rightharpoonup> pyval) \<Rightarrow> 'c \<Rightarrow> (exn + pyval) \<times> 'c \<times> effect list"
  current_classification_of :: "'c \<Rightarrow> pyval"

text \<open>
  \<^verbatim>\<open>PoserApp\<close>: the client bound by \<^verbatim>\<open>set_poser_client\<close> and the actuator bound by
  \<^verbatim>\<open>set_actuator\<close> (\<open>None\<close> while the attribute does not exist). Of the actuator,
  \<^verbatim>\<open>bluetooth_device.BluetoothDevice\<close>, the handler uses two methods: \<^verbatim>\<open>send\<close> and
  \<^verbatim>\<open>receive\<close> are what they do when called.
\<close>

record actuator_device =
  send :: "string \<Rightarrow> exn + unit"
  receive :: "exn + pyval"

record 'c poser_app =
  poser_client :: "'c option"
  actuator :: "actuator_device option"

text \<open>
  \<^verbatim>\<open>handle_keypoints\<close>, the listener of the \<^verbatim>\<open>keypoints\<close> event, for the class \<open>K\<close> of
  the bound client. The event is built, the actuator called and the event emitted when
  \<^verbatim>\<open>results and pc.poser_client.current_classification is not None\<close>; the division
  \<^verbatim>\<open>1.0 / speed\<close> is inside the dictionary that is built before the actuator is called.
\<close>

definition handle_keypoints ::
  "'c client_class \<Rightarrow> env \<Rightarrow> (string \<rightharpoonup> pyval) \<Rightarrow> 'c poser_app
   \<Rightarrow> (exn + unit) \<times> 'c poser_app \<times> effect list" where
  "handle_keypoints K en payload pc =
     (case poser_client pc of
        None \<Rightarrow> (Inr (), pc, [Emit ''frame_result'' (ErrorEvent ''No model set'')])
      | Some cl \<Rightarrow>
          (case run_keypoint_pipeline_of K en payload cl of
             (Inl e, cl', t1) \<Rightarrow> (Inl e, pc\<lparr>poser_client := Some cl'\<rparr>, t1)
           | (Inr results, cl', t1) \<Rightarrow>
               (let pc' = pc\<lparr>poser_client := Some cl'\<rparr>;
                    speed = end_time en - start_time en
                in if truthy results \<and> current_classification_of K cl' \<noteq> PyNone then
                     (let classification = current_classification_of K cl'
                      in if speed = 0 then (Inl ZeroDivisionError, pc', t1)
                         else
                           (case actuator pc' of
                              None \<Rightarrow> (Inl AttributeError, pc', t1)
                            | Some dev \<Rightarrow>
                                (case send dev ''a'' of
                                   Inl e \<Rightarrow> (Inl e, pc', t1 @ [ActuatorSend ''a''])
                                 | Inr u \<Rightarrow>
                                     (case receive dev of
                                        Inl e \<Rightarrow>
                                          (Inl e, pc', t1 @ [ActuatorSend ''a'', ActuatorReceive])
                                      | Inr device_result \<Rightarrow>
                                          (Inr (), pc',
                                           t1 @ [ActuatorSend ''a'', ActuatorReceive,
                                                 Emit ''frame_result''
                                                   (ClassificationEvent classification
                                                      (str_nat (stamp_ns en)) speed (1 / speed)
                                                      device_result)])))))
                   else (Inr (), pc', t1))))"

text \<open>\<^verbatim>\<open>MLFlowClient\<close> as a class of clients: its method and its attribute.\<close>

definition MLFlowClient_current_classification :: "mlflow_client \<Rightarrow> pyval" where
  "MLFlowClient_current_classification c =
     (case current_classification c of None \<Rightarrow> PyNone | Some b \<Rightarrow> PyBool b)"

definition MLFlowClient_class :: "mlflow_client client_class" where
  "MLFlowClient_class =
     \<lparr>run_keypoint_pipeline_of = run_keypoint_pipeline,
      current_classification_of = MLFlowClient_current_classification\<rparr>"

section \<open>PoserClient, the client that app.py binds\<close>






section \<open>Reading a call, the invariant of the window, and streams of observations\<close>

text \<open>
  A call yields its outcome, the state afterwards and its effects.
\<close>

abbreviation outcome :: "'a \<times> 's \<times> effect list \<Rightarrow> 'a" where
  "outcome r \<equiv> fst r"

abbreviation after :: "'a \<times> 's \<times> effect list \<Rightarrow> 's" where
  "after r \<equiv> fst (snd r)"

abbreviation effects :: "'a \<times> 's \<times> effect list \<Rightarrow> effect list" where
  "effects r \<equiv> snd (snd r)"

fun is_predict :: "effect \<Rightarrow> bool" where
  "is_predict (Predict d) = True"
| "is_predict _ = False"

text \<open>
  The invariant of a client: the deque's bound is the configured \<^verbatim>\<open>frame_window\<close> and the
  window holds no more frames than that. \<^verbatim>\<open>__init__\<close> establishes it and both methods keep
  it (lemmas \<open>wf_init\<close>, \<open>wf_update\<close>, \<open>wf_run\<close> below).
\<close>

definition wf_client :: "mlflow_client \<Rightarrow> bool" where
  "wf_client c =
     (maxlen (frames c) = frame_window c \<and> int (length (items (frames c))) \<le> frame_window c)"

text \<open>
  The two kinds of observation the claims speak of. A valid one carries a non-empty list
  under \<^verbatim>\<open>landmarks\<close> whose first entry the normaliser \<open>m\<close> turns into the joint
  positions of the frame \<open>f\<close>; a dropped one has no \<^verbatim>\<open>landmarks\<close> key, or a value of
  length zero under it.
\<close>

definition valid_observation :: "(pyval \<Rightarrow> exn + pyval) \<Rightarrow> (string \<rightharpoonup> pyval) \<Rightarrow> frame \<Rightarrow> bool" where
  "valid_observation m kp f =
     (case kp ''landmarks'' of
        Some (PyList (lm # rest)) \<Rightarrow> m lm = Inr (joint_positions f) \<and> f = web_frame (joint_positions f)
      | _ \<Rightarrow> False)"

definition landmarks_missing_or_empty :: "(string \<rightharpoonup> pyval) \<Rightarrow> bool" where
  "landmarks_missing_or_empty kp =
     (case kp ''landmarks'' of None \<Rightarrow> True | Some lms \<Rightarrow> py_len lms = Inr 0)"

text \<open>
  A session offers its observations one after the other to the same client object, which
  keeps its state whatever the outcome of a call was.
\<close>

fun push_all :: "(string \<rightharpoonup> pyval) list \<Rightarrow> mlflow_client \<Rightarrow> mlflow_client" where
  "push_all [] c = c"
| "push_all (kp # kps) c = push_all kps (after (update_frame_data_from_js_client_keypoints kp c))"

fun run_all :: "(env \<times> (string \<rightharpoonup> pyval)) list \<Rightarrow> mlflow_client \<Rightarrow> mlflow_client" where
  "run_all [] c = c"
| "run_all ((en, kp) # rest) c = run_all rest (after (run_keypoint_pipeline en kp c))"

text \<open>
  The last \<open>n\<close> elements of a list, in order.
\<close>

definition last_n :: "nat \<Rightarrow> 'a list \<Rightarrow> 'a list" where
  "last_n n xs = drop (length xs - n) xs"

section \<open>An example session\<close>

text \<open>
  Concrete collaborators, clients and observations, on which the theorems below are
  evaluated.
\<close>

definition example_assemble :: "string \<Rightarrow> frame list \<Rightarrow> exn + pyval" where
  "example_assemble name fs = Inr (PyList (map joint_positions fs))"

definition example_serialize :: "pyval \<Rightarrow> exn + pyval" where
  "example_serialize v = Inr v"

definition example_transform :: "pyval \<Rightarrow> pyval \<Rightarrow> exn + pyval \<times> pyval" where
  "example_transform data cols = Inr (data, PyNone)"

definition example_env :: env where
  "example_env =
     \<lparr>blaze_pose_sequence = example_assemble, sequence_serializer = example_serialize,
      start_time = 10, name_ns = 7, end_time = 12, stamp_ns = 9\<rparr>"

definition example_client :: "int \<Rightarrow> (pyval \<Rightarrow> exn + pyval) option \<Rightarrow> mlflow_client" where
  "example_client fw pf =
     \<lparr>frame_window = fw, model = PyNone,
      transformer = Some example_transform,
      mpc = Some example_serialize,
      frames = \<lparr>items = [], maxlen = fw\<rparr>,
      current_classification = None, predict_fn = pf,
      input_example = [''columns'' \<mapsto> PyList []], input_columns = PyList []\<rparr>"

definition example_send :: "string \<Rightarrow> exn + unit" where
  "example_send cmd = Inr ()"

definition example_actuator :: actuator_device where
  "example_actuator = \<lparr>send = example_send, receive = Inr (PyStr ''ok'')\<rparr>"

definition observation :: "pyval \<Rightarrow> (string \<rightharpoonup> pyval)" where
  "observation lms = [''landmarks'' \<mapsto> lms]"

definition failing_predict :: "pyval \<Rightarrow> exn + pyval" where
  "failing_predict data = Inl (Raised ''predict failed'')"

definition constant_predict :: "pyval \<Rightarrow> pyval \<Rightarrow> exn + pyval" where
  "constant_predict label data = Inr label"

definition example_app :: "'c \<Rightarrow> 'c poser_app" where
  "example_app c = \<lparr>poser_client = Some c, actuator = Some example_actuator\<rparr>"

definition example_unbound_app :: "'c poser_app" where
  "example_unbound_app = \<lparr>poser_client = None, actuator = None\<rparr>"





definition example_full_client :: "(pyval \<Rightarrow> exn + pyval) option \<Rightarrow> mlflow_client" where
  "example_full_client pf =
     (example_client 1 pf)\<lparr>frames := \<lparr>items = [web_frame (PyInt 1)], maxlen = 1\<rparr>\<rparr>"

definition example_classified_client :: mlflow_client where
  "example_classified_client =
     after (run_keypoint_pipeline example_env (observation (PyList [PyInt 1]))
              (example_client 1 (Some (constant_predict (PyBool True)))))"

definition example_two_frames :: mlflow_client where
  "example_two_frames =
     (example_client 2 None)
       \<lparr>frames := \<lparr>items = [web_frame (PyInt 1), web_frame (PyInt 2)], maxlen = 2\<rparr>\<rparr>"

section \<open>Properties of the frame update and of the pipeline\<close>

lemma update_after_cases:
  "after (update_frame_data_from_js_client_keypoints kp c) = c \<or>
   (\<exists>jp. after (update_frame_data_from_js_client_keypoints kp c) =
      c\<lparr>frames := deque_append (frames c) (web_frame jp)\<rparr>)"
  by (auto simp: update_frame_data_from_js_client_keypoints_def Let_def
           split: option.splits sum.splits)

lemma update_returns_frames:
  "outcome (update_frame_data_from_js_client_keypoints kp c) = Inr fr \<Longrightarrow>
   fr = frames (after (update_frame_data_from_js_client_keypoints kp c))"
  by (auto simp: update_frame_data_from_js_client_keypoints_def Let_def
           split: option.splits sum.splits if_splits)

lemma update_effects_not_pipeline:
  "filter is_pipeline_effect (effects (update_frame_data_from_js_client_keypoints kp c)) = []"
  by (auto simp: update_frame_data_from_js_client_keypoints_def Let_def
           split: option.splits sum.splits)

lemma update_keeps_fields:
  "current_classification (after (update_frame_data_from_js_client_keypoints kp c)) =
     current_classification c"
  "frame_window (after (update_frame_data_from_js_client_keypoints kp c)) = frame_window c"
  "predict_fn (after (update_frame_data_from_js_client_keypoints kp c)) = predict_fn c"
  "transformer (after (update_frame_data_from_js_client_keypoints kp c)) = transformer c"
  "mpc (after (update_frame_data_from_js_client_keypoints kp c)) = mpc c"
  "input_columns (after (update_frame_data_from_js_client_keypoints kp c)) = input_columns c"
  "maxlen (frames (after (update_frame_data_from_js_client_keypoints kp c))) = maxlen (frames c)"
  using update_after_cases [of kp c] by (auto simp: deque_append_def Let_def)

lemma update_effects_quiet:
  "filter is_emit (effects (update_frame_data_from_js_client_keypoints kp c)) = []"
  "filter is_actuation (effects (update_frame_data_from_js_client_keypoints kp c)) = []"
  by (auto simp: update_frame_data_from_js_client_keypoints_def Let_def
           split: option.splits sum.splits)

lemma update_dropped:
  "landmarks_missing_or_empty kp \<Longrightarrow>
   update_frame_data_from_js_client_keypoints kp c = (Inr (frames c), c, [])"
  by (auto simp: landmarks_missing_or_empty_def update_frame_data_from_js_client_keypoints_def
           split: option.splits)

lemma update_valid:
  "valid_observation m kp f \<Longrightarrow> mpc c = Some m \<Longrightarrow>
   \<exists>lm. update_frame_data_from_js_client_keypoints kp c =
     (Inr (deque_append (frames c) f), c\<lparr>frames := deque_append (frames c) f\<rparr>,
      [SerializePoseLandmarks lm])"
  by (auto simp: valid_observation_def update_frame_data_from_js_client_keypoints_def Let_def
           split: option.splits pyval.splits list.splits)

lemma run_outcome_None:
  "outcome (run_keypoint_pipeline en kp c) = Inr v \<Longrightarrow> v = PyNone"
  by (cases "update_frame_data_from_js_client_keypoints kp c")
     (auto simp: run_keypoint_pipeline_def Let_def
           split: option.splits sum.splits if_splits)

lemma run_after_cases:
  "after (run_keypoint_pipeline en kp c) =
     after (update_frame_data_from_js_client_keypoints kp c) \<or>
   (\<exists>b. after (run_keypoint_pipeline en kp c) =
      (after (update_frame_data_from_js_client_keypoints kp c))
        \<lparr>current_classification := Some b\<rparr>)"
proof (cases "update_frame_data_from_js_client_keypoints kp c")
  case (fields r c1 t1)
  then show ?thesis
    by (simp add: run_keypoint_pipeline_def Let_def
             split: option.split sum.split prod.split) blast
qed

lemma run_frames:
  "frames (after (run_keypoint_pipeline en kp c)) =
   frames (after (update_frame_data_from_js_client_keypoints kp c))"
  using run_after_cases [of en kp c] by auto

lemma run_keeps_fields:
  "frame_window (after (run_keypoint_pipeline en kp c)) = frame_window c"
  "predict_fn (after (run_keypoint_pipeline en kp c)) = predict_fn c"
  "transformer (after (run_keypoint_pipeline en kp c)) = transformer c"
  "mpc (after (run_keypoint_pipeline en kp c)) = mpc c"
  "input_columns (after (run_keypoint_pipeline en kp c)) = input_columns c"
  using update_keeps_fields [of kp c] run_after_cases [of en kp c] by auto

lemma run_effects_quiet:
  "filter is_emit (effects (run_keypoint_pipeline en kp c)) = []"
  "filter is_actuation (effects (run_keypoint_pipeline en kp c)) = []"
proof -
  obtain r c1 t1 where u: "update_frame_data_from_js_client_keypoints kp c = (r, c1, t1)"
    by (cases "update_frame_data_from_js_client_keypoints kp c")
  from u update_effects_quiet [of kp c]
  have q: "filter is_emit t1 = []" "filter is_actuation t1 = []" by simp_all
  from u q show "filter is_emit (effects (run_keypoint_pipeline en kp c)) = []"
    by (simp add: run_keypoint_pipeline_def Let_def
             split: option.split sum.split prod.split)
  from u q show "filter is_actuation (effects (run_keypoint_pipeline en kp c)) = []"
    by (simp add: run_keypoint_pipeline_def Let_def
             split: option.split sum.split prod.split)
qed

lemma run_classification_cases:
  "current_classification (after (run_keypoint_pipeline en kp c)) = current_classification c \<or>
   (\<exists>b. current_classification (after (run_keypoint_pipeline en kp c)) = Some b \<and>
        filter is_predict (effects (run_keypoint_pipeline en kp c)) \<noteq> [])"
proof (cases "update_frame_data_from_js_client_keypoints kp c")
  case (fields r c1 t1)
  with update_keeps_fields(1) [of kp c] have "current_classification c1 = current_classification c"
    by simp
  with fields show ?thesis
    by (simp add: run_keypoint_pipeline_def Let_def
             split: option.split sum.split prod.split)
qed

lemma run_all_classified:
  "current_classification c \<noteq> None \<Longrightarrow> current_classification (run_all obs c) \<noteq> None"
proof (induction obs arbitrary: c)
  case Nil
  then show ?case by simp
next
  case (Cons o1 obs)
  obtain en kp where o1: "o1 = (en, kp)" by (cases o1)
  from run_classification_cases [of en kp c] Cons.prems
  have "current_classification (after (run_keypoint_pipeline en kp c)) \<noteq> None" by auto
  from Cons.IH [OF this] o1 show ?case by simp
qed

lemma run_full_window:
  assumes u: "update_frame_data_from_js_client_keypoints kp c = (Inr fr, c1, t1)"
    and full: "int (length (items fr)) = frame_window c"
    and asm: "blaze_pose_sequence en (''sequence-'' @ str_nat (name_ns en)) (items fr) = Inr sq"
    and ser: "sequence_serializer en sq = Inr sd"
    and tr: "transformer c = Some tf" "tf sd (input_columns c) = Inr (data, meta)"
  shows "run_keypoint_pipeline en kp c =
     (case predict_fn c of
        None \<Rightarrow>
          (Inr PyNone, c1,
           t1 @ [Assemble (''sequence-'' @ str_nat (name_ns en)) (items fr),
                 SerializeSequence sq, Transform sd (input_columns c)])
      | Some p \<Rightarrow>
          (case p data of
             Inl e \<Rightarrow>
               (Inl e, c1,
                t1 @ [Assemble (''sequence-'' @ str_nat (name_ns en)) (items fr),
                      SerializeSequence sq, Transform sd (input_columns c), Predict data])
           | Inr label \<Rightarrow>
               (Inr PyNone, c1\<lparr>current_classification := Some (truthy label)\<rparr>,
                t1 @ [Assemble (''sequence-'' @ str_nat (name_ns en)) (items fr),
                      SerializeSequence sq, Transform sd (input_columns c), Predict data])))"
proof -
  from u update_keeps_fields [of kp c]
  have k: "frame_window c1 = frame_window c" "transformer c1 = transformer c"
    "predict_fn c1 = predict_fn c" "input_columns c1 = input_columns c"
    by simp_all
  show ?thesis
    using u full asm ser tr k
    by (simp add: run_keypoint_pipeline_def Let_def split: option.split sum.split)
qed

lemma run_stage_iff:
  assumes "outcome (update_frame_data_from_js_client_keypoints kp c) = Inr fr"
  shows "(filter is_pipeline_effect (effects (run_keypoint_pipeline en kp c)) \<noteq> []) =
         (int (length (items (frames (after (run_keypoint_pipeline en kp c))))) = frame_window c)"
proof (cases "update_frame_data_from_js_client_keypoints kp c")
  case (fields r c1 t1)
  with assms have r: "r = Inr fr" by simp
  from fields r update_returns_frames [of kp c fr] have fr: "fr = frames c1" by simp
  from fields update_keeps_fields(2) [of kp c] have fw: "frame_window c1 = frame_window c" by simp
  from fields update_effects_not_pipeline [of kp c] have t1: "filter is_pipeline_effect t1 = []"
    by simp
  have f: "frames (after (run_keypoint_pipeline en kp c)) = frames c1"
    using run_frames [of en kp c] fields by simp
  show ?thesis
    unfolding f
    using fields r fr fw t1
    by (simp add: run_keypoint_pipeline_def Let_def split: option.split sum.split prod.split)
qed

lemma handle_raise:
  assumes "poser_client pc = Some cl"
    and "run_keypoint_pipeline_of K en kp cl = (Inl e, cl', t)"
  shows "handle_keypoints K en kp pc = (Inl e, pc\<lparr>poser_client := Some cl'\<rparr>, t)"
  using assms by (simp add: handle_keypoints_def)

lemma handle_falsy:
  assumes "poser_client pc = Some cl"
    and "run_keypoint_pipeline_of K en kp cl = (Inr results, cl', t)"
    and "\<not> truthy results"
  shows "handle_keypoints K en kp pc = (Inr (), pc\<lparr>poser_client := Some cl'\<rparr>, t)"
  using assms by (simp add: handle_keypoints_def)


lemma handle_bound:
  assumes "poser_client pc = Some cl"
  shows "handle_keypoints MLFlowClient_class en kp pc =
     (map_sum id (\<lambda>v. ()) (outcome (run_keypoint_pipeline en kp cl)),
      pc\<lparr>poser_client := Some (after (run_keypoint_pipeline en kp cl))\<rparr>,
      effects (run_keypoint_pipeline en kp cl))"
proof (cases "run_keypoint_pipeline en kp cl")
  case (fields r cl' t1)
  show ?thesis
  proof (cases r)
    case (Inl e)
    with fields assms handle_raise [of pc cl MLFlowClient_class en kp e cl' t1]
    show ?thesis by (simp add: MLFlowClient_class_def)
  next
    case (Inr v)
    with fields run_outcome_None [of en kp cl v] have "v = PyNone" by simp
    with Inr fields assms handle_falsy [of pc cl MLFlowClient_class en kp PyNone cl' t1]
    show ?thesis by (simp add: MLFlowClient_class_def)
  qed
qed

subsection \<open>The modelled PoserClient\<close>





subsection \<open>The bounded window\<close>

lemma last_n_append: "last_n n (last_n n xs @ ys) = last_n n (xs @ ys)"
proof (cases "length xs \<le> n")
  case True
  then show ?thesis by (simp add: last_n_def)
next
  case False
  then have "length xs - n + n = length xs" by simp
  then have "length xs + length ys - (length xs - n + n) + (length xs - n) =
             length xs + length ys - n" using False by simp
  then show ?thesis using False by (simp add: last_n_def)
qed

lemma deque_append_last_n:
  "0 \<le> maxlen d \<Longrightarrow> int (length (items d)) \<le> maxlen d \<Longrightarrow>
   items (deque_append d x) = last_n (nat (maxlen d)) (items d @ [x])"
proof -
  assume a: "0 \<le> maxlen d" "int (length (items d)) \<le> maxlen d"
  show ?thesis
  proof (cases "maxlen d < int (length (items d)) + 1")
    case True
    with a have "nat (maxlen d) = length (items d)" by simp
    with True show ?thesis
      by (cases "items d") (simp_all add: deque_append_def last_n_def Let_def)
  next
    case False
    then have "length (items d) + 1 \<le> nat (maxlen d)" by simp
    with False show ?thesis
      by (simp add: deque_append_def last_n_def Let_def)
  qed
qed

lemma deque_append_maxlen: "maxlen (deque_append d x) = maxlen d"
  by (simp add: deque_append_def Let_def)

lemma deque_append_bounded:
  "int (length (items d)) \<le> maxlen d \<Longrightarrow> int (length (items (deque_append d x))) \<le> maxlen d"
  by (cases "items d") (auto simp: deque_append_def Let_def)

lemma wf_update:
  "wf_client c \<Longrightarrow> wf_client (after (update_frame_data_from_js_client_keypoints kp c))"
  using update_after_cases [of kp c] deque_append_bounded [of "frames c"]
  by (auto simp: wf_client_def deque_append_maxlen)

lemma wf_run: "wf_client c \<Longrightarrow> wf_client (after (run_keypoint_pipeline en kp c))"
  using wf_update [of c kp] run_frames [of en kp c] run_keeps_fields(1) [of en kp c]
    update_keeps_fields(2) [of kp c]
  by (simp add: wf_client_def)

lemma wf_init:
  "MLFlowClient_init fw m tm dt pf ie = Inr c \<Longrightarrow> wf_client c \<and> items (frames c) = []"
  by (auto simp: MLFlowClient_init_def deque_init_def wf_client_def
           split: sum.splits option.splits if_splits)

lemma wf_push_all: "wf_client c \<Longrightarrow> wf_client (push_all kps c)"
  by (induction kps arbitrary: c) (auto simp: wf_update)

lemma push_all_keeps:
  "mpc (push_all kps c) = mpc c" "frame_window (push_all kps c) = frame_window c"
  by (induction kps arbitrary: c) (auto simp: update_keeps_fields)

lemma push_all_valid:
  "list_all2 (valid_observation m) kps fs \<Longrightarrow> wf_client c \<Longrightarrow> mpc c = Some m \<Longrightarrow>
   items (frames (push_all kps c)) = last_n (nat (frame_window c)) (items (frames c) @ fs)"
proof (induction kps fs arbitrary: c rule: list_all2_induct)
  case Nil
  then have "length (items (frames c)) \<le> nat (frame_window c)"
    unfolding wf_client_def by linarith
  then show ?case by (simp add: last_n_def)
next
  case (Cons kp kps f fs)
  let ?c' = "after (update_frame_data_from_js_client_keypoints kp c)"
  from update_valid [OF Cons.hyps(1) Cons.prems(2)]
  have c': "?c' = c\<lparr>frames := deque_append (frames c) f\<rparr>" by auto
  from Cons.prems(1) have b: "0 \<le> maxlen (frames c)" "int (length (items (frames c))) \<le> maxlen (frames c)"
    "maxlen (frames c) = frame_window c"
    by (auto simp: wf_client_def)
  have it: "items (frames ?c') = last_n (nat (frame_window c)) (items (frames c) @ [f])"
    using c' deque_append_last_n [OF b(1,2), of f] b(3) by simp
  have "items (frames (push_all kps ?c')) = last_n (nat (frame_window ?c')) (items (frames ?c') @ fs)"
    using Cons.IH [of ?c'] wf_update [OF Cons.prems(1), of kp] Cons.prems(2)
    by (simp add: update_keeps_fields)
  then show ?case
    using it last_n_append [of "nat (frame_window c)" "items (frames c) @ [f]" fs]
    by (simp add: update_keeps_fields)
qed

lemma push_all_bounded:
  "wf_client c \<Longrightarrow> int (length (items (frames (push_all obs c)))) \<le> frame_window c"
  using wf_push_all [of c obs] push_all_keeps(2) [of obs c] by (simp add: wf_client_def)

lemma update_evicts_oldest:
  assumes "wf_client c" "mpc c = Some m" "valid_observation m kp f"
    and "0 < frame_window c" "int (length (items (frames c))) = frame_window c"
  shows "items (frames (after (update_frame_data_from_js_client_keypoints kp c))) =
         tl (items (frames c)) @ [f]"
proof -
  from update_valid [OF assms(3,2)]
  have "items (frames (after (update_frame_data_from_js_client_keypoints kp c))) =
        items (deque_append (frames c) f)" by auto
  moreover from assms(1,4,5) have "items (frames c) \<noteq> []" "maxlen (frames c) = frame_window c"
    by (auto simp: wf_client_def)
  ultimately show ?thesis using assms(5) by (simp add: deque_append_def Let_def)
qed

subsection \<open>The example session evaluated\<close>

lemmas example_defs =
  example_env_def example_client_def example_app_def observation_def
  failing_predict_def constant_predict_def example_assemble_def example_serialize_def
  example_transform_def

lemma example_client_init:
  "0 \<le> fw \<Longrightarrow> fw < 2 ^ 63 \<Longrightarrow>
   MLFlowClient_init fw (Some example_serialize) PyNone (Some example_transform) pf
     [''columns'' \<mapsto> PyList []] = Inr (example_client fw pf)"
  by (simp add: MLFlowClient_init_def deque_init_def example_client_def)

lemma example_update:
  "update_frame_data_from_js_client_keypoints (observation (PyList [v])) (example_client 1 pf) =
     (Inr \<lparr>items = [web_frame v], maxlen = 1\<rparr>,
      (example_client 1 pf)\<lparr>frames := \<lparr>items = [web_frame v], maxlen = 1\<rparr>\<rparr>,
      [SerializePoseLandmarks v])"
  by (simp add: update_frame_data_from_js_client_keypoints_def example_defs deque_append_def)

lemma example_update_two:
  "update_frame_data_from_js_client_keypoints (observation (PyList [v])) (example_client 2 pf) =
     (Inr \<lparr>items = [web_frame v], maxlen = 2\<rparr>,
      (example_client 2 pf)\<lparr>frames := \<lparr>items = [web_frame v], maxlen = 2\<rparr>\<rparr>,
      [SerializePoseLandmarks v])"
  by (simp add: update_frame_data_from_js_client_keypoints_def example_defs deque_append_def)


lemma example_full:
  "int (length (items \<lparr>items = [web_frame v], maxlen = 1\<rparr>)) = frame_window (example_client 1 pf)"
  by (simp add: example_client_def)

lemma example_assembled:
  "blaze_pose_sequence example_env (''sequence-'' @ str_nat (name_ns example_env))
     (items \<lparr>items = [web_frame v], maxlen = 1\<rparr>) = Inr (PyList [v])"
  by (simp add: example_env_def example_assemble_def web_frame_def)

lemma example_serialized:
  "sequence_serializer example_env (PyList [v]) = Inr (PyList [v])"
  by (simp add: example_env_def example_serialize_def)

lemma example_transformer:
  "transformer (example_client 1 pf) = Some example_transform"
  by (simp add: example_client_def)

lemma example_transformed:
  "example_transform (PyList [v]) (input_columns (example_client 1 pf)) =
     Inr (PyList [v], PyNone)"
  by (simp add: example_transform_def)

lemma example_classified_client_eq:
  "example_classified_client =
     (example_client 1 (Some (constant_predict (PyBool True))))
       \<lparr>frames := \<lparr>items = [web_frame (PyInt 1)], maxlen = 1\<rparr>,
        current_classification := Some True\<rparr>"
  unfolding example_classified_client_def
  by (simp add: run_keypoint_pipeline_def example_update)
     (simp add: example_defs web_frame_def)

lemma example_two_frames_reached:
  "push_all [observation (PyList [PyInt 1]), observation (PyList [PyInt 2])]
     (example_client 2 None) = example_two_frames"
  by (simp add: update_frame_data_from_js_client_keypoints_def example_defs deque_append_def
        example_two_frames_def)

section \<open>The claims\<close>

subsection \<open>Emission at a full window\<close>




subsection \<open>A failing prediction function\<close>

text \<open>
  C2, as amended. At a full window whose assembly, serialisation and transformation
  succeed, an exception raised by the prediction function leaves
  \<^verbatim>\<open>run_keypoint_pipeline\<close> and \<^verbatim>\<open>handle_keypoints\<close> as that same exception: there is no
  failure signal. The client is left as the frame update made it (the offered frame is in
  the window, the stored classification is the one from before), and the call makes no
  actuator call and emits no event. The closed statement after the evaluation at the
  example refutes the claim as it was written: the exception is the outcome of both calls.
\<close>

theorem predict_failure_propagates:
  assumes "update_frame_data_from_js_client_keypoints kp c = (Inr fr, c1, t1)"
    and "int (length (items fr)) = frame_window c"
    and "blaze_pose_sequence en (''sequence-'' @ str_nat (name_ns en)) (items fr) = Inr sq"
    and "sequence_serializer en sq = Inr sd"
    and "transformer c = Some tf" and "tf sd (input_columns c) = Inr (data, meta)"
    and "predict_fn c = Some p" and "p data = Inl e"
    and "poser_client pc = Some c"
  shows "run_keypoint_pipeline en kp c =
           (Inl e, c1,
            t1 @ [Assemble (''sequence-'' @ str_nat (name_ns en)) (items fr),
                  SerializeSequence sq, Transform sd (input_columns c), Predict data]) \<and>
         handle_keypoints MLFlowClient_class en kp pc =
           (Inl e, pc\<lparr>poser_client := Some c1\<rparr>,
            t1 @ [Assemble (''sequence-'' @ str_nat (name_ns en)) (items fr),
                  SerializeSequence sq, Transform sd (input_columns c), Predict data]) \<and>
         current_classification c1 = current_classification c \<and>
         filter is_actuation (effects (handle_keypoints MLFlowClient_class en kp pc)) = [] \<and>
         filter is_emit (effects (handle_keypoints MLFlowClient_class en kp pc)) = []"
proof -
  have r: "run_keypoint_pipeline en kp c =
           (Inl e, c1,
            t1 @ [Assemble (''sequence-'' @ str_nat (name_ns en)) (items fr),
                  SerializeSequence sq, Transform sd (input_columns c), Predict data])"
    using run_full_window [OF assms(1-6)] assms(7,8) by simp
  have h: "handle_keypoints MLFlowClient_class en kp pc =
           (Inl e, pc\<lparr>poser_client := Some c1\<rparr>,
            t1 @ [Assemble (''sequence-'' @ str_nat (name_ns en)) (items fr),
                  SerializeSequence sq, Transform sd (input_columns c), Predict data])"
    using handle_bound [OF assms(9), of en kp] r by simp
  have cc: "current_classification c1 = current_classification c"
    using update_keeps_fields(1) [of kp c] assms(1) by simp
  have q: "filter is_actuation (effects (handle_keypoints MLFlowClient_class en kp pc)) = []"
    "filter is_emit (effects (handle_keypoints MLFlowClient_class en kp pc)) = []"
    using handle_bound [OF assms(9), of en kp] run_effects_quiet [of en kp c] by simp_all
  from r h cc q show ?thesis by blast
qed

theorem predict_failure_propagates_witness:
  "handle_keypoints MLFlowClient_class example_env (observation (PyList [PyInt 1]))
     (example_app (example_client 1 (Some failing_predict))) =
   (Inl (Raised ''predict failed''),
    example_app ((example_client 1 (Some failing_predict))
                   \<lparr>frames := \<lparr>items = [web_frame (PyInt 1)], maxlen = 1\<rparr>\<rparr>),
    [SerializePoseLandmarks (PyInt 1),
     Assemble (''sequence-'' @ str_nat 7) [web_frame (PyInt 1)],
     SerializeSequence (PyList [PyInt 1]),
     Transform (PyList [PyInt 1]) (PyList []),
     Predict (PyList [PyInt 1])])"
proof -
  let ?c = "example_client 1 (Some failing_predict)"
  have h2: "int (length (items \<lparr>items = [web_frame (PyInt 1)], maxlen = 1\<rparr>)) = frame_window ?c"
    by (simp add: example_defs)
  have h3: "blaze_pose_sequence example_env (''sequence-'' @ str_nat (name_ns example_env))
              (items \<lparr>items = [web_frame (PyInt 1)], maxlen = 1\<rparr>) = Inr (PyList [PyInt 1])"
    by (simp add: example_defs web_frame_def)
  have h4: "sequence_serializer example_env (PyList [PyInt 1]) = Inr (PyList [PyInt 1])"
    by (simp add: example_defs)
  have h5: "transformer ?c = Some example_transform"
    by (simp add: example_defs)
  have h6: "example_transform (PyList [PyInt 1]) (input_columns ?c) =
            Inr (PyList [PyInt 1], PyNone)"
    by (simp add: example_defs)
  have h7: "predict_fn ?c = Some failing_predict" by (simp add: example_defs)
  have h8: "failing_predict (PyList [PyInt 1]) = Inl (Raised ''predict failed'')"
    by (simp add: example_defs)
  have h9: "poser_client (example_app ?c) = Some ?c" by (simp add: example_defs)
  from predict_failure_propagates [OF example_update h2 h3 h4 h5 h6 h7 h8 h9]
  show ?thesis by (simp add: example_defs)
qed

text \<open>
  C2 as it was written, refuted: with a prediction function that raises, the outcome of
  the pipeline step and of the handler is the raised exception.
\<close>

theorem predict_failure_counterexample:
  "fst (run_keypoint_pipeline example_env (observation (PyList [PyInt 1]))
          (example_client 1 (Some failing_predict))) = Inl (Raised ''predict failed'') \<and>
   fst (handle_keypoints MLFlowClient_class example_env (observation (PyList [PyInt 1]))
          (example_app (example_client 1 (Some failing_predict)))) = Inl (Raised ''predict failed'')"
proof -
  have r: "fst (run_keypoint_pipeline example_env (observation (PyList [PyInt 1]))
                  (example_client 1 (Some failing_predict))) = Inl (Raised ''predict failed'')"
    by (simp add: run_keypoint_pipeline_def example_update)
       (simp add: example_defs)
  have b: "poser_client (example_app (example_client 1 (Some failing_predict))) =
           Some (example_client 1 (Some failing_predict))"
    by (simp add: example_app_def)
  from r handle_bound [OF b, of example_env "observation (PyList [PyInt 1])"]
  show ?thesis by simp
qed

subsection \<open>The sliding window\<close>

text \<open>
  C3. For a client satisfying the invariant (every client built by \<^verbatim>\<open>__init__\<close> and every
  state reached from it): after any observations \<open>obs\<close> the window holds at most
  \<^verbatim>\<open>frame_window\<close> frames; after the valid observations \<open>kps\<close>, which contribute the
  frames \<open>fs\<close>, it holds the last \<^verbatim>\<open>frame_window\<close> frames of what it held before followed
  by \<open>fs\<close>, in that order, hence exactly the last \<^verbatim>\<open>frame_window\<close> of \<open>fs\<close> once there
  are at least that many; and a valid observation offered to a window at its (positive)
  capacity removes the oldest frame and appends the new one.
\<close>

theorem frame_window_sliding:
  assumes "wf_client c" and "mpc c = Some m" and "list_all2 (valid_observation m) kps fs"
  shows "int (length (items (frames (push_all obs c)))) \<le> frame_window c \<and>
         items (frames (push_all kps c)) =
           last_n (nat (frame_window c)) (items (frames c) @ fs) \<and>
         (nat (frame_window c) \<le> length fs \<longrightarrow>
            items (frames (push_all kps c)) = last_n (nat (frame_window c)) fs) \<and>
         (0 < frame_window c \<and> int (length (items (frames c))) = frame_window c \<and>
          valid_observation m kp f \<longrightarrow>
            items (frames (after (update_frame_data_from_js_client_keypoints kp c))) =
              tl (items (frames c)) @ [f])"
proof -
  have a: "int (length (items (frames (push_all obs c)))) \<le> frame_window c"
    using push_all_bounded [OF assms(1)] .
  have b: "items (frames (push_all kps c)) =
           last_n (nat (frame_window c)) (items (frames c) @ fs)"
    using push_all_valid [OF assms(3,1,2)] .
  have c: "nat (frame_window c) \<le> length fs \<Longrightarrow>
           last_n (nat (frame_window c)) (items (frames c) @ fs) = last_n (nat (frame_window c)) fs"
    by (simp add: last_n_def)
  have d: "0 < frame_window c \<and> int (length (items (frames c))) = frame_window c \<and>
          valid_observation m kp f \<longrightarrow>
            items (frames (after (update_frame_data_from_js_client_keypoints kp c))) =
              tl (items (frames c)) @ [f]"
    using update_evicts_oldest [OF assms(1,2)] by blast
  from a b c d show ?thesis by simp
qed

theorem frame_window_sliding_witness:
  "items (frames (push_all
      [observation (PyList [PyInt 3]), observation (PyList []), observation (PyList [PyInt 4]),
       observation (PyList [PyInt 5])] example_two_frames)) =
     [web_frame (PyInt 4), web_frame (PyInt 5)] \<and>
   items (frames (push_all
      [observation (PyList [PyInt 3]), observation (PyList [PyInt 4]),
       observation (PyList [PyInt 5])] example_two_frames)) =
     [web_frame (PyInt 4), web_frame (PyInt 5)] \<and>
   items (frames (after (update_frame_data_from_js_client_keypoints
      (observation (PyList [PyInt 6])) example_two_frames))) =
     [web_frame (PyInt 2), web_frame (PyInt 6)]"
proof -
  have h1: "wf_client example_two_frames"
    by (simp add: wf_client_def example_two_frames_def example_client_def)
  have h2: "mpc example_two_frames = Some example_serialize"
    by (simp add: example_two_frames_def example_client_def)
  have v: "valid_observation example_serialize (observation (PyList [x])) (web_frame x)" for x
    by (simp add: valid_observation_def observation_def example_serialize_def web_frame_def)
  have h3: "list_all2 (valid_observation example_serialize)
      [observation (PyList [PyInt 3]), observation (PyList [PyInt 4]),
       observation (PyList [PyInt 5])]
      [web_frame (PyInt 3), web_frame (PyInt 4), web_frame (PyInt 5)]"
    by (simp add: v)
  have e: "items (frames (push_all
      [observation (PyList [PyInt 3]), observation (PyList []), observation (PyList [PyInt 4]),
       observation (PyList [PyInt 5])] example_two_frames)) =
     [web_frame (PyInt 4), web_frame (PyInt 5)]"
    by (simp add: update_frame_data_from_js_client_keypoints_def example_defs deque_append_def
        example_two_frames_def)
  from frame_window_sliding [OF h1 h2 h3, of "[]" "observation (PyList [PyInt 6])" "web_frame (PyInt 6)"]
    v [of "PyInt 6"] e
  show ?thesis
    by (simp add: last_n_def example_two_frames_def example_client_def)
qed

subsection \<open>Observations without landmarks\<close>

text \<open>
  C4. An observation whose \<^verbatim>\<open>landmarks\<close> are missing or empty makes the frame update
  return the window without an exception, without any effect and with the client
  unchanged; the window after \<^verbatim>\<open>run_keypoint_pipeline\<close> is the window before it.
\<close>

theorem empty_landmarks_dropped:
  assumes "landmarks_missing_or_empty kp"
  shows "update_frame_data_from_js_client_keypoints kp c = (Inr (frames c), c, []) \<and>
         frames (after (run_keypoint_pipeline en kp c)) = frames c"
  using update_dropped [OF assms, of c] run_frames [of en kp c] by simp

theorem empty_landmarks_dropped_witness:
  "landmarks_missing_or_empty (observation (PyList [])) \<and>
   update_frame_data_from_js_client_keypoints (observation (PyList []))
     (example_full_client None) =
     (Inr (frames (example_full_client None)), example_full_client None, []) \<and>
   frames (after (run_keypoint_pipeline example_env (observation (PyList []))
     (example_full_client None))) = frames (example_full_client None)"
proof -
  have h: "landmarks_missing_or_empty (observation (PyList []))"
    by (simp add: landmarks_missing_or_empty_def observation_def)
  from h empty_landmarks_dropped [OF h, of "example_full_client None" example_env]
  show ?thesis by simp
qed

subsection \<open>When the pipeline stage runs\<close>

text \<open>
  C5. Let the frame update return the window \<open>fr\<close>. The calls of the assemble, serialise,
  transform and predict stage occur among the effects of \<^verbatim>\<open>run_keypoint_pipeline\<close>
  exactly when the length of \<open>fr\<close> equals \<^verbatim>\<open>frame_window\<close>. When the window is not full
  the call returns \<^verbatim>\<open>None\<close> at once, with the client and the effects of the frame update
  and nothing else. When it is full and the stages succeed, all four calls are made, in
  order, on that window, and the truth value of the label is stored. Whatever the class of
  the bound client, \<^verbatim>\<open>handle_keypoints\<close> returns with exactly the effects of a pipeline
  call that hands back a falsy result: it calls no actuator and emits no event. With
  capacity 1, every valid observation leaves exactly its own frame in the window, and the
  whole stage runs on it.
\<close>

theorem pipeline_runs_iff_window_full:
  assumes "update_frame_data_from_js_client_keypoints kp c = (Inr fr, c1, t1)"
  shows "((filter is_pipeline_effect (effects (run_keypoint_pipeline en kp c)) \<noteq> []) =
          (int (length (items fr)) = frame_window c)) \<and>
         (int (length (items fr)) \<noteq> frame_window c \<longrightarrow>
            run_keypoint_pipeline en kp c = (Inr PyNone, c1, t1)) \<and>
         (int (length (items fr)) = frame_window c \<and>
          blaze_pose_sequence en (''sequence-'' @ str_nat (name_ns en)) (items fr) = Inr sq \<and>
          sequence_serializer en sq = Inr sd \<and>
          transformer c = Some tf \<and> tf sd (input_columns c) = Inr (data, meta) \<and>
          predict_fn c = Some p \<and> p data = Inr label \<longrightarrow>
            run_keypoint_pipeline en kp c =
              (Inr PyNone, c1\<lparr>current_classification := Some (truthy label)\<rparr>,
               t1 @ [Assemble (''sequence-'' @ str_nat (name_ns en)) (items fr),
                     SerializeSequence sq, Transform sd (input_columns c), Predict data])) \<and>
         (poser_client pk = Some cl \<and>
          run_keypoint_pipeline_of K en kp cl = (Inr results, cl', t) \<and> \<not> truthy results \<longrightarrow>
            handle_keypoints K en kp pk = (Inr (), pk\<lparr>poser_client := Some cl'\<rparr>, t)) \<and>
         (wf_client c \<and> frame_window c = 1 \<and> mpc c = Some m \<and> valid_observation m kp f \<and>
          blaze_pose_sequence en (''sequence-'' @ str_nat (name_ns en)) [f] = Inr sq \<and>
          sequence_serializer en sq = Inr sd \<and>
          transformer c = Some tf \<and> tf sd (input_columns c) = Inr (data, meta) \<and>
          predict_fn c = Some p \<and> p data = Inr label \<longrightarrow>
            items fr = [f] \<and>
            run_keypoint_pipeline en kp c =
              (Inr PyNone, c1\<lparr>current_classification := Some (truthy label)\<rparr>,
               t1 @ [Assemble (''sequence-'' @ str_nat (name_ns en)) [f],
                     SerializeSequence sq, Transform sd (input_columns c), Predict data]))"
proof -
  have fr: "fr = frames c1"
    using update_returns_frames [of kp c fr] assms by simp
  have f: "frames (after (run_keypoint_pipeline en kp c)) = fr"
    using run_frames [of en kp c] assms fr by simp
  have 1: "(filter is_pipeline_effect (effects (run_keypoint_pipeline en kp c)) \<noteq> []) =
          (int (length (items fr)) = frame_window c)"
    using run_stage_iff [of kp c fr en] assms f by simp
  have k: "frame_window c1 = frame_window c"
    using update_keeps_fields(2) [of kp c] assms by simp
  have 2: "int (length (items fr)) \<noteq> frame_window c \<longrightarrow>
            run_keypoint_pipeline en kp c = (Inr PyNone, c1, t1)"
    using assms k by (simp add: run_keypoint_pipeline_def)
  have 3: "int (length (items fr)) = frame_window c \<and>
          blaze_pose_sequence en (''sequence-'' @ str_nat (name_ns en)) (items fr) = Inr sq \<and>
          sequence_serializer en sq = Inr sd \<and>
          transformer c = Some tf \<and> tf sd (input_columns c) = Inr (data, meta) \<and>
          predict_fn c = Some p \<and> p data = Inr label \<longrightarrow>
            run_keypoint_pipeline en kp c =
              (Inr PyNone, c1\<lparr>current_classification := Some (truthy label)\<rparr>,
               t1 @ [Assemble (''sequence-'' @ str_nat (name_ns en)) (items fr),
                     SerializeSequence sq, Transform sd (input_columns c), Predict data])"
    using run_full_window [OF assms, of en sq sd tf data meta] by auto
  have 4: "poser_client pk = Some cl \<and>
          run_keypoint_pipeline_of K en kp cl = (Inr results, cl', t) \<and> \<not> truthy results \<longrightarrow>
            handle_keypoints K en kp pk = (Inr (), pk\<lparr>poser_client := Some cl'\<rparr>, t)"
    using handle_falsy [of pk cl K en kp results cl' t] by blast
  have 5: "items fr = [f] \<and> int (length (items fr)) = frame_window c"
    if w: "wf_client c" "frame_window c = 1" "mpc c = Some m" "valid_observation m kp f"
  proof -
    from update_valid [OF w(4,3)] assms have e: "fr = deque_append (frames c) f" by auto
    from w(1,2) have "0 \<le> maxlen (frames c)" "int (length (items (frames c))) \<le> maxlen (frames c)"
      "nat (maxlen (frames c)) = 1"
      by (auto simp: wf_client_def)
    with deque_append_last_n [of "frames c" f]
    have "items (deque_append (frames c) f) = last_n 1 (items (frames c) @ [f])" by simp
    then have "items (deque_append (frames c) f) = [f]" by (simp add: last_n_def)
    with e w(2) show ?thesis by simp
  qed
  have 6: "wf_client c \<and> frame_window c = 1 \<and> mpc c = Some m \<and> valid_observation m kp f \<and>
          blaze_pose_sequence en (''sequence-'' @ str_nat (name_ns en)) [f] = Inr sq \<and>
          sequence_serializer en sq = Inr sd \<and>
          transformer c = Some tf \<and> tf sd (input_columns c) = Inr (data, meta) \<and>
          predict_fn c = Some p \<and> p data = Inr label \<longrightarrow>
            items fr = [f] \<and>
            run_keypoint_pipeline en kp c =
              (Inr PyNone, c1\<lparr>current_classification := Some (truthy label)\<rparr>,
               t1 @ [Assemble (''sequence-'' @ str_nat (name_ns en)) [f],
                     SerializeSequence sq, Transform sd (input_columns c), Predict data])"
    using 5 3 by auto
  from 1 2 3 4 6 show ?thesis by blast
qed

theorem pipeline_runs_iff_window_full_witness:
  "run_keypoint_pipeline example_env (observation (PyList [PyInt 1]))
     (example_client 1 (Some (constant_predict (PyBool True)))) =
     (Inr PyNone,
      (example_client 1 (Some (constant_predict (PyBool True))))
        \<lparr>frames := \<lparr>items = [web_frame (PyInt 1)], maxlen = 1\<rparr>,
         current_classification := Some True\<rparr>,
      [SerializePoseLandmarks (PyInt 1),
       Assemble (''sequence-'' @ str_nat 7) [web_frame (PyInt 1)],
       SerializeSequence (PyList [PyInt 1]),
       Transform (PyList [PyInt 1]) (PyList []),
       Predict (PyList [PyInt 1])]) \<and>
   run_keypoint_pipeline example_env (observation (PyList [PyInt 1]))
     (example_client 2 (Some (constant_predict (PyBool True)))) =
     (Inr PyNone,
      (example_client 2 (Some (constant_predict (PyBool True))))
        \<lparr>frames := \<lparr>items = [web_frame (PyInt 1)], maxlen = 2\<rparr>\<rparr>,
      [SerializePoseLandmarks (PyInt 1)]) \<and>
   filter is_pipeline_effect
     (effects (run_keypoint_pipeline example_env (observation (PyList [PyInt 1]))
        (example_client 2 (Some (constant_predict (PyBool True)))))) = [] \<and>
   handle_keypoints MLFlowClient_class example_env (observation (PyList [PyInt 1]))
     (example_app (example_client 2 (Some (constant_predict (PyBool True))))) =
     (Inr (),
      example_app ((example_client 2 (Some (constant_predict (PyBool True))))
                     \<lparr>frames := \<lparr>items = [web_frame (PyInt 1)], maxlen = 2\<rparr>\<rparr>),
      [SerializePoseLandmarks (PyInt 1)])"
proof -
  let ?kp = "observation (PyList [PyInt 1])"
  let ?pf = "Some (constant_predict (PyBool True))"
  let ?c1 = "example_client 1 ?pf"
  let ?c2 = "example_client 2 ?pf"
  let ?c2' = "?c2\<lparr>frames := \<lparr>items = [web_frame (PyInt 1)], maxlen = 2\<rparr>\<rparr>"
  have w: "wf_client ?c1" "frame_window ?c1 = 1" "mpc ?c1 = Some example_serialize"
    by (simp_all add: wf_client_def example_client_def)
  have v: "valid_observation example_serialize ?kp (web_frame (PyInt 1))"
    by (simp add: valid_observation_def observation_def example_serialize_def web_frame_def)
  have a: "blaze_pose_sequence example_env (''sequence-'' @ str_nat (name_ns example_env))
             [web_frame (PyInt 1)] = Inr (PyList [PyInt 1])"
    using example_assembled [of "PyInt 1"] by simp
  have q: "predict_fn ?c1 = ?pf" by (simp add: example_client_def)
  have p: "constant_predict (PyBool True) (PyList [PyInt 1]) = Inr (PyBool True)"
    by (simp add: constant_predict_def)
  from pipeline_runs_iff_window_full
         [where en = example_env and sq = "PyList [PyInt 1]" and sd = "PyList [PyInt 1]"
            and tf = example_transform and data = "PyList [PyInt 1]" and meta = PyNone
            and p = "constant_predict (PyBool True)" and label = "PyBool True"
            and pk = "example_app ?c2" and cl = ?c2 and K = MLFlowClient_class
            and results = PyNone and cl' = ?c2' and t = "[SerializePoseLandmarks (PyInt 1)]"
            and m = example_serialize and f = "web_frame (PyInt 1)",
          OF example_update [where v = "PyInt 1" and pf = ?pf]]
       w v a q p example_serialized [of "PyInt 1"] example_transformer [of ?pf]
       example_transformed [of "PyInt 1" ?pf]
  have r1: "run_keypoint_pipeline example_env ?kp ?c1 =
     (Inr PyNone,
      ?c1\<lparr>frames := \<lparr>items = [web_frame (PyInt 1)], maxlen = 1\<rparr>,
          current_classification := Some True\<rparr>,
      [SerializePoseLandmarks (PyInt 1),
       Assemble (''sequence-'' @ str_nat 7) [web_frame (PyInt 1)],
       SerializeSequence (PyList [PyInt 1]),
       Transform (PyList [PyInt 1]) (PyList []),
       Predict (PyList [PyInt 1])])"
    by (simp add: example_env_def example_client_def)
  have n: "int (length (items \<lparr>items = [web_frame (PyInt 1)], maxlen = 2\<rparr>)) \<noteq> frame_window ?c2"
    by (simp add: example_client_def)
  note t2 = pipeline_runs_iff_window_full
         [where en = example_env and sq = "PyList [PyInt 1]" and sd = "PyList [PyInt 1]"
            and tf = example_transform and data = "PyList [PyInt 1]" and meta = PyNone
            and p = "constant_predict (PyBool True)" and label = "PyBool True"
            and pk = "example_app ?c2" and cl = ?c2 and K = MLFlowClient_class
            and results = PyNone and cl' = ?c2' and t = "[SerializePoseLandmarks (PyInt 1)]"
            and m = example_serialize and f = "web_frame (PyInt 1)",
          OF example_update_two [where v = "PyInt 1" and pf = ?pf]]
  from t2 n have r2: "run_keypoint_pipeline example_env ?kp ?c2 =
     (Inr PyNone, ?c2', [SerializePoseLandmarks (PyInt 1)])"
    and e2: "filter is_pipeline_effect (effects (run_keypoint_pipeline example_env ?kp ?c2)) = []"
    by simp_all
  have b: "poser_client (example_app ?c2) = Some ?c2" by (simp add: example_app_def)
  have m: "run_keypoint_pipeline_of MLFlowClient_class example_env ?kp ?c2 =
           (Inr PyNone, ?c2', [SerializePoseLandmarks (PyInt 1)])"
    using r2 by (simp add: MLFlowClient_class_def)
  from t2 b m have h: "handle_keypoints MLFlowClient_class example_env ?kp (example_app ?c2) =
      (Inr (), (example_app ?c2)\<lparr>poser_client := Some ?c2'\<rparr>, [SerializePoseLandmarks (PyInt 1)])"
    by simp
  from r1 r2 e2 h show ?thesis by (simp add: example_app_def)
qed

subsection \<open>No classifier bound\<close>

text \<open>
  C6. While no client is bound to the session, whatever the class of clients, every
  inbound observation makes \<^verbatim>\<open>handle_keypoints\<close> return normally with exactly one effect,
  the event \<^verbatim>\<open>{"error": "No model set"}\<close>; the application state is unchanged, so
  nothing is buffered and the next observation is handled from the same state.
\<close>

theorem no_model_set_error_event:
  assumes "poser_client pc = None"
  shows "handle_keypoints K en payload pc =
           (Inr (), pc, [Emit ''frame_result'' (ErrorEvent ''No model set'')])"
  using assms by (simp add: handle_keypoints_def)

theorem no_model_set_error_event_witness:
  "poser_client (example_unbound_app :: mlflow_client poser_app) = None \<and>
   handle_keypoints MLFlowClient_class example_env (observation (PyList [PyInt 1]))
     example_unbound_app =
     (Inr (), example_unbound_app, [Emit ''frame_result'' (ErrorEvent ''No model set'')])"
proof -
  have h: "poser_client (example_unbound_app :: mlflow_client poser_app) = None"
    by (simp add: example_unbound_app_def)
  from h no_model_set_error_event
         [OF h, of MLFlowClient_class example_env "observation (PyList [PyInt 1])"]
  show ?thesis by simp
qed

subsection \<open>No prediction function configured\<close>

text \<open>
  C7. At a full window whose assembly, serialisation and transformation succeed, a client
  without a prediction function makes \<^verbatim>\<open>run_keypoint_pipeline\<close> return \<^verbatim>\<open>None\<close> after
  the transformation: nothing is raised, no prediction call is among the effects, and the
  stored classification is the one from before the call.
\<close>

theorem absent_predict_fn_short_circuits:
  assumes "update_frame_data_from_js_client_keypoints kp c = (Inr fr, c1, t1)"
    and "int (length (items fr)) = frame_window c"
    and "blaze_pose_sequence en (''sequence-'' @ str_nat (name_ns en)) (items fr) = Inr sq"
    and "sequence_serializer en sq = Inr sd"
    and "transformer c = Some tf" and "tf sd (input_columns c) = Inr (data, meta)"
    and "predict_fn c = None"
  shows "run_keypoint_pipeline en kp c =
           (Inr PyNone, c1,
            t1 @ [Assemble (''sequence-'' @ str_nat (name_ns en)) (items fr),
                  SerializeSequence sq, Transform sd (input_columns c)]) \<and>
         current_classification (after (run_keypoint_pipeline en kp c)) =
           current_classification c \<and>
         filter is_predict (effects (run_keypoint_pipeline en kp c)) = []"
proof -
  have r: "run_keypoint_pipeline en kp c =
           (Inr PyNone, c1,
            t1 @ [Assemble (''sequence-'' @ str_nat (name_ns en)) (items fr),
                  SerializeSequence sq, Transform sd (input_columns c)])"
    using run_full_window [OF assms(1-6)] assms(7) by simp
  have cc: "current_classification c1 = current_classification c"
    using update_keeps_fields(1) [of kp c] assms(1) by simp
  have "filter is_predict t1 = []"
    using assms(1)
    by (auto simp: update_frame_data_from_js_client_keypoints_def Let_def
             split: option.splits sum.splits if_splits)
  with r cc show ?thesis by simp
qed

theorem absent_predict_fn_short_circuits_witness:
  "run_keypoint_pipeline example_env (observation (PyList [PyInt 1])) (example_client 1 None) =
     (Inr PyNone,
      (example_client 1 None)\<lparr>frames := \<lparr>items = [web_frame (PyInt 1)], maxlen = 1\<rparr>\<rparr>,
      [SerializePoseLandmarks (PyInt 1),
       Assemble (''sequence-'' @ str_nat 7) [web_frame (PyInt 1)],
       SerializeSequence (PyList [PyInt 1]),
       Transform (PyList [PyInt 1]) (PyList [])]) \<and>
   current_classification
     (after (run_keypoint_pipeline example_env (observation (PyList [PyInt 1]))
        (example_client 1 None))) = None"
proof -
  have q: "predict_fn (example_client 1 None) = None"
    by (simp add: example_client_def)
  from absent_predict_fn_short_circuits
    [OF example_update example_full example_assembled example_serialized
        example_transformer example_transformed q]
  show ?thesis by (simp add: example_env_def example_client_def)
qed

subsection \<open>A dropped observation at a full window\<close>

text \<open>
  C8. An observation with missing or empty landmarks offered to a client whose window is
  full leaves the window as it is, and \<^verbatim>\<open>run_keypoint_pipeline\<close> still assembles,
  serialises, transforms and predicts over that unchanged window, storing the truth value
  of the new prediction.
\<close>

theorem dropped_observation_reruns_full_window:
  assumes "landmarks_missing_or_empty kp"
    and "int (length (items (frames c))) = frame_window c"
    and "blaze_pose_sequence en (''sequence-'' @ str_nat (name_ns en)) (items (frames c)) = Inr sq"
    and "sequence_serializer en sq = Inr sd"
    and "transformer c = Some tf" and "tf sd (input_columns c) = Inr (data, meta)"
    and "predict_fn c = Some p" and "p data = Inr label"
  shows "update_frame_data_from_js_client_keypoints kp c = (Inr (frames c), c, []) \<and>
         run_keypoint_pipeline en kp c =
           (Inr PyNone, c\<lparr>current_classification := Some (truthy label)\<rparr>,
            [Assemble (''sequence-'' @ str_nat (name_ns en)) (items (frames c)),
             SerializeSequence sq, Transform sd (input_columns c), Predict data])"
  using update_dropped [OF assms(1), of c]
    run_full_window [OF update_dropped [OF assms(1), of c] assms(2-6)] assms(7,8)
  by simp

theorem dropped_observation_reruns_full_window_witness:
  "run_keypoint_pipeline example_env (observation (PyList []))
     (example_full_client (Some (constant_predict (PyInt 0)))) =
     (Inr PyNone,
      (example_full_client (Some (constant_predict (PyInt 0))))
        \<lparr>current_classification := Some False\<rparr>,
      [Assemble (''sequence-'' @ str_nat 7) [web_frame (PyInt 1)],
       SerializeSequence (PyList [PyInt 1]),
       Transform (PyList [PyInt 1]) (PyList []),
       Predict (PyList [PyInt 1])])"
proof -
  let ?c = "example_full_client (Some (constant_predict (PyInt 0)))"
  have h1: "landmarks_missing_or_empty (observation (PyList []))"
    by (simp add: landmarks_missing_or_empty_def observation_def)
  have h2: "int (length (items (frames ?c))) = frame_window ?c"
    by (simp add: example_full_client_def example_client_def)
  have h3: "blaze_pose_sequence example_env (''sequence-'' @ str_nat (name_ns example_env))
              (items (frames ?c)) = Inr (PyList [PyInt 1])"
    by (simp add: example_full_client_def example_defs web_frame_def)
  have h4: "sequence_serializer example_env (PyList [PyInt 1]) = Inr (PyList [PyInt 1])"
    by (simp add: example_defs)
  have h5: "transformer ?c = Some example_transform"
    by (simp add: example_full_client_def example_client_def)
  have h6: "example_transform (PyList [PyInt 1]) (input_columns ?c) =
            Inr (PyList [PyInt 1], PyNone)"
    by (simp add: example_defs)
  have h7: "predict_fn ?c = Some (constant_predict (PyInt 0))"
    by (simp add: example_full_client_def example_client_def)
  have h8: "constant_predict (PyInt 0) (PyList [PyInt 1]) = Inr (PyInt 0)"
    by (simp add: constant_predict_def)
  from dropped_observation_reruns_full_window [OF h1 h2 h3 h4 h5 h6 h7 h8]
  show ?thesis
    by (simp add: example_full_client_def example_client_def example_env_def)
qed

subsection \<open>The stored classification is never reset\<close>

text \<open>
  C9. Once a classification is stored, the frame update leaves it as it is, and after
  \<^verbatim>\<open>run_keypoint_pipeline\<close>, whatever its outcome, and after any stream of observations a
  classification is still stored; a call among whose effects there is no prediction
  leaves the stored value unchanged.
\<close>

theorem classification_never_reset:
  assumes "current_classification c = Some b"
  shows "current_classification (after (update_frame_data_from_js_client_keypoints kp c)) = Some b \<and>
         current_classification (after (run_keypoint_pipeline en kp c)) \<noteq> None \<and>
         current_classification (run_all obs c) \<noteq> None \<and>
         (filter is_predict (effects (run_keypoint_pipeline en kp c)) = [] \<longrightarrow>
            current_classification (after (run_keypoint_pipeline en kp c)) = Some b)"
  using assms update_keeps_fields(1) [of kp c] run_classification_cases [of en kp c]
    run_all_classified [of c obs]
  by auto

theorem classification_never_reset_witness:
  "current_classification example_classified_client = Some True \<and>
   filter is_predict
     (effects (run_keypoint_pipeline example_env (observation PyNone) example_classified_client)) = [] \<and>
   current_classification
     (after (run_keypoint_pipeline example_env (observation PyNone) example_classified_client)) =
     Some True \<and>
   current_classification
     (run_all [(example_env, observation (PyList [])), (example_env, observation PyNone)]
        example_classified_client) \<noteq> None"
proof -
  have h: "current_classification example_classified_client = Some True"
    by (simp add: example_classified_client_eq)
  have u: "update_frame_data_from_js_client_keypoints (observation PyNone) example_classified_client =
           (Inl TypeError, example_classified_client, [])"
    by (simp add: update_frame_data_from_js_client_keypoints_def observation_def)
  have e: "filter is_predict
     (effects (run_keypoint_pipeline example_env (observation PyNone) example_classified_client)) = []"
    by (simp add: run_keypoint_pipeline_def u)
  from h e classification_never_reset [OF h, of "observation PyNone" example_env
      "[(example_env, observation (PyList [])), (example_env, observation PyNone)]"]
  show ?thesis by simp
qed

subsection \<open>The classification is a truth value\<close>

text \<open>
  C10. At a full window whose stages succeed, the classification stored by
  \<^verbatim>\<open>run_keypoint_pipeline\<close> is \<^verbatim>\<open>bool(label)\<close> of the label the prediction function
  returned: the field holds a truth value, never the label itself.
\<close>

theorem classification_is_truthiness:
  assumes "update_frame_data_from_js_client_keypoints kp c = (Inr fr, c1, t1)"
    and "int (length (items fr)) = frame_window c"
    and "blaze_pose_sequence en (''sequence-'' @ str_nat (name_ns en)) (items fr) = Inr sq"
    and "sequence_serializer en sq = Inr sd"
    and "transformer c = Some tf" and "tf sd (input_columns c) = Inr (data, meta)"
    and "predict_fn c = Some p" and "p data = Inr label"
  shows "run_keypoint_pipeline en kp c =
           (Inr PyNone, c1\<lparr>current_classification := Some (truthy label)\<rparr>,
            t1 @ [Assemble (''sequence-'' @ str_nat (name_ns en)) (items fr),
                  SerializeSequence sq, Transform sd (input_columns c), Predict data]) \<and>
         current_classification (after (run_keypoint_pipeline en kp c)) = Some (truthy label)"
  using run_full_window [OF assms(1-6)] assms(7,8) by simp

theorem classification_is_truthiness_witness:
  "current_classification
     (after (run_keypoint_pipeline example_env (observation (PyList [PyInt 1]))
        (example_client 1 (Some (constant_predict (PyStr ''squat'')))))) = Some True"
proof -
  have p: "constant_predict (PyStr ''squat'') (PyList [PyInt 1]) = Inr (PyStr ''squat'')"
    by (simp add: constant_predict_def)
  have q: "predict_fn (example_client 1 (Some (constant_predict (PyStr ''squat'')))) =
           Some (constant_predict (PyStr ''squat''))"
    by (simp add: example_client_def)
  from classification_is_truthiness
    [OF example_update example_full example_assembled example_serialized
        example_transformer example_transformed q p]
  show ?thesis by simp
qed

end
